theory Spec2Isabelle
  imports Main
begin

section \<open>Python strings\<close>

text \<open>
  A Python \<open>str\<close> is modelled as a \<open>string\<close> whose characters are the code points
  below 256. \<open>isspace\<close> lists the code points below 256 for which Python's
  \<open>str.isspace\<close> holds; \<open>str.strip()\<close> removes them from both ends.
\<close>

definition isspace :: "char \<Rightarrow> bool" where
  "isspace c = (c \<in> set [CHR 0x09, CHR 0x0A, CHR 0x0B, CHR 0x0C, CHR 0x0D,
                          CHR 0x1C, CHR 0x1D, CHR 0x1E, CHR 0x1F, CHR 0x20,
                          CHR 0x85, CHR 0xA0])"

definition strip :: "string \<Rightarrow> string" where
  "strip s = rev (dropWhile isspace (rev (dropWhile isspace s)))"

text \<open>
  \<open>str.lower()\<close> on code points below 256: the ASCII capitals and the Latin-1
  capitals (all of 0xC0 .. 0xDE but the multiplication sign 0xD7) move up by 32.
\<close>

definition lower_char :: "char \<Rightarrow> char" where
  "lower_char c =
     (let n = (of_char c :: nat)
      in if (65 \<le> n \<and> n \<le> 90) \<or> (192 \<le> n \<and> n \<le> 222 \<and> n \<noteq> 215)
         then char_of (n + 32) else c)"

definition lower :: "string \<Rightarrow> string" where
  "lower s = map lower_char s"

definition startswith :: "string \<Rightarrow> string \<Rightarrow> bool" where
  "startswith s pre = (take (length pre) s = pre)"

fun join :: "string \<Rightarrow> string list \<Rightarrow> string" where
  "join sep [] = []"
| "join sep [x] = x"
| "join sep (x # y # ys) = x @ sep @ join sep (y # ys)"

text \<open>\<open>str(n)\<close> for a non-negative integer: its decimal digits.\<close>

fun str_nat :: "nat \<Rightarrow> string" where
  "str_nat n =
     (if n < 10 then [char_of (48 + n)]
      else str_nat (n div 10) @ [char_of (48 + n mod 10)])"

declare str_nat.simps [simp del]

text \<open>
  \<open>str.splitlines()\<close> on code points below 256: a line ends at CR LF, or at one of
  LF, VT, FF, CR, FS, GS, RS, NEL; the line ends are dropped, and a final line end
  opens no further line.
\<close>

definition is_linebreak :: "char \<Rightarrow> bool" where
  "is_linebreak c = (c \<in> set [CHR 0x0A, CHR 0x0B, CHR 0x0C, CHR 0x0D,
                               CHR 0x1C, CHR 0x1D, CHR 0x1E, CHR 0x85])"

fun splitlines_from :: "string \<Rightarrow> string \<Rightarrow> string list" where
  "splitlines_from cur [] = (if cur = [] then [] else [cur])"
| "splitlines_from cur [c] = (if is_linebreak c then [cur] else [cur @ [c]])"
| "splitlines_from cur (c # d # cs) =
     (if c = CHR 0x0D \<and> d = CHR 0x0A then cur # splitlines_from [] cs
      else if is_linebreak c then cur # splitlines_from [] (d # cs)
      else splitlines_from (cur @ [c]) (d # cs))"

definition splitlines :: "string \<Rightarrow> string list" where
  "splitlines text = splitlines_from [] text"

section \<open>JSON values, schema sources and errors\<close>

text \<open>
  What \<open>json.load\<close> returns: \<open>None\<close>, \<open>bool\<close>, \<open>int\<close>, \<open>float\<close> (kept as the
  literal it was read from: the script never computes with it), \<open>str\<close>, \<open>list\<close>, and
  \<open>dict\<close> as an association list read with \<open>map_of\<close>.
\<close>

datatype json =
    JNull
  | JBool bool
  | JInt int
  | JFloat string
  | JString string
  | JArray "json list"
  | JObject "(string \<times> json) list"

text \<open>\<open>json.JSONDecodeError(msg, doc, pos)\<close>.\<close>

record JSONDecodeError =
  msg :: string
  doc :: string
  pos :: nat

text \<open>
  The \<open>schema\<close> slot of a \<open>SchemaSource\<close> is typed \<open>object\<close>: the script stores in
  it either the parsed value or the \<open>JSONDecodeError\<close> it caught.
\<close>

datatype schema_object = Parsed json | DecodeError JSONDecodeError

type_synonym path = string

record SchemaSource =
  path :: path
  label :: string
  schema :: schema_object

text \<open>
  The exceptions that leave a function of the script: a \<open>JSONDecodeError\<close> nobody
  caught, the \<open>TypeError\<close> of hashing a \<open>list\<close> or a \<open>dict\<close>, the \<open>OSError\<close> of a
  file that cannot be read, and the two exceptions of \<open>json.loads\<close> that are no
  \<open>JSONDecodeError\<close>: the \<open>ValueError\<close> of an integer literal with too many digits
  and the \<open>RecursionError\<close> of a text nested too deeply.
\<close>

datatype error =
    JSONDecodeErr JSONDecodeError
  | TypeError string
  | OSError string
  | ValueError string
  | RecursionError string

text \<open>
  What the script takes from the file system, from \<open>pathlib\<close>, \<open>json\<close> and
  \<open>jsonschema\<close>, and from the interpreter. A \<open>Path\<close> is the string \<open>str(path)\<close>.
  \<^item> \<open>path_exists\<close>, \<open>path_is_dir\<close>: \<open>Path.exists()\<close>, \<open>Path.is_dir()\<close>;
  \<^item> \<open>read_text\<close>: the text of a file, or the \<open>OSError\<close> of opening or reading it
    (a text that cannot be decoded is counted with it);
  \<^item> \<open>path_rglob\<close>: \<open>Path.rglob(pattern)\<close>, in the order the walk gives;
  \<^item> \<open>path_parent\<close>, \<open>path_join\<close>, \<open>path_suffix\<close>: \<open>Path.parent\<close>, the operator
    \<open>/\<close>, \<open>Path.suffix\<close>;
  \<^item> \<open>json_loads\<close>: \<open>json.loads\<close>, the value or the exception it raises
    (\<open>JSONDecodeError\<close>, \<open>ValueError\<close> or \<open>RecursionError\<close>);
  \<^item> \<open>check_schema\<close>: \<open>Draft7Validator.check_schema\<close>, \<open>None\<close> when it returns and
    \<open>Some\<close> of \<open>str(exc)\<close> when it raises;
  \<^item> \<open>py_repr\<close>: \<open>repr\<close> of a value;
  \<^item> \<open>script_repo_root\<close>: \<open>Path(__file__).resolve().parents[1]\<close>.
\<close>

record env =
  path_exists :: "path \<Rightarrow> bool"
  path_is_dir :: "path \<Rightarrow> bool"
  read_text :: "path \<Rightarrow> error + string"
  path_rglob :: "path \<Rightarrow> string \<Rightarrow> path list"
  path_parent :: "path \<Rightarrow> path"
  path_join :: "path \<Rightarrow> string \<Rightarrow> path"
  path_suffix :: "path \<Rightarrow> string"
  json_loads :: "string \<Rightarrow> error + json"
  check_schema :: "json \<Rightarrow> string option"
  py_repr :: "json \<Rightarrow> string"
  script_repo_root :: path

section \<open>The two validators\<close>

definition DRAFT07_URIS :: "string list" where
  "DRAFT07_URIS =
     [''http://json-schema.org/draft-07/schema#'',
      ''https://json-schema.org/draft-07/schema#'',
      ''http://json-schema.org/draft-07/schema'',
      ''https://json-schema.org/draft-07/schema'']"

text \<open>
  \<open>schema_uri not in DRAFT07_URIS\<close>: membership in a \<open>set\<close> hashes the operand
  first, and a \<open>list\<close> or a \<open>dict\<close> has no hash; a hashable value is in the set
  exactly when it is a \<open>str\<close> equal to one of the members.
\<close>

fun not_in_DRAFT07_URIS :: "json \<Rightarrow> error + bool" where
  "not_in_DRAFT07_URIS (JArray xs) =
     Inl (TypeError (''unhashable type: '' @ [CHR 0x27] @ ''list'' @ [CHR 0x27]))"
| "not_in_DRAFT07_URIS (JObject kvs) =
     Inl (TypeError (''unhashable type: '' @ [CHR 0x27] @ ''dict'' @ [CHR 0x27]))"
| "not_in_DRAFT07_URIS (JString s) = Inr (s \<notin> set DRAFT07_URIS)"
| "not_in_DRAFT07_URIS v = Inr True"

text \<open>\<open>schema.get("$schema")\<close>: the value under the key, \<open>None\<close> without the key.\<close>

definition dict_get :: "(string \<times> json) list \<Rightarrow> string \<Rightarrow> json" where
  "dict_get kvs k = (case map_of kvs k of None \<Rightarrow> JNull | Some v \<Rightarrow> v)"

text \<open>\<open>isinstance(schema, dict)\<close>, and the items of a \<open>dict\<close>.\<close>

fun isinstance_dict :: "schema_object \<Rightarrow> bool" where
  "isinstance_dict (Parsed (JObject kvs)) = True"
| "isinstance_dict other = False"

fun dict_items :: "schema_object \<Rightarrow> (string \<times> json) list" where
  "dict_items (Parsed (JObject kvs)) = kvs"
| "dict_items other = []"

definition require_draft07 :: "env \<Rightarrow> schema_object \<Rightarrow> string \<Rightarrow> error + string list" where
  "require_draft07 E sch lbl =
     (if \<not> isinstance_dict sch then Inr [lbl @ '': schema must be a JSON object'']
      else let schema_uri = dict_get (dict_items sch) ''$schema''
           in case not_in_DRAFT07_URIS schema_uri of
                Inl e \<Rightarrow> Inl e
              | Inr absent \<Rightarrow>
                  if absent
                  then Inr [lbl @ '': $schema must be Draft 07 (got ''
                              @ py_repr E schema_uri @ '')'']
                  else Inr [])"

definition validate_schema :: "env \<Rightarrow> schema_object \<Rightarrow> string \<Rightarrow> string list" where
  "validate_schema E sch lbl =
     (case sch of
        DecodeError exc \<Rightarrow> [lbl @ '': invalid JSON ('' @ msg exc @ '')'']
      | Parsed v \<Rightarrow>
          if \<not> isinstance_dict sch then [lbl @ '': schema must be a JSON object'']
          else (case check_schema E v of
                  Some exc \<Rightarrow> [lbl @ '': '' @ exc]
                | None \<Rightarrow> []))"

section \<open>Building schema sources\<close>

text \<open>
  \<open>parse_json_file\<close> is a generator of one element; \<open>json.load\<close> is called outside
  any \<open>try\<close>, so whatever it raises leaves the generator.
\<close>

definition parse_json_file :: "env \<Rightarrow> path \<Rightarrow> error + SchemaSource list" where
  "parse_json_file E pth =
     (case read_text E pth of
        Inl e \<Rightarrow> Inl e
      | Inr text \<Rightarrow>
          (case json_loads E text of
             Inl e \<Rightarrow> Inl e
           | Inr data \<Rightarrow> Inr [\<lparr>path = pth, label = pth, schema = Parsed data\<rparr>]))"

definition block_label :: "path \<Rightarrow> nat \<Rightarrow> nat \<Rightarrow> string" where
  "block_label pth start_line block_index =
     pth @ '':'' @ str_nat start_line @ '' (block '' @ str_nat block_index @ '')''"

text \<open>
  \<open>except json.JSONDecodeError as exc\<close> catches that exception only; any other
  exception of \<open>json.loads\<close> leaves the function.
\<close>

definition parse_json_block ::
  "env \<Rightarrow> path \<Rightarrow> nat \<Rightarrow> nat \<Rightarrow> string \<Rightarrow> error + SchemaSource" where
  "parse_json_block E pth start_line block_index block_text =
     (let lbl = block_label pth start_line block_index
      in case json_loads E block_text of
           Inl e \<Rightarrow>
             (case e of
                JSONDecodeErr exc \<Rightarrow> Inr \<lparr>path = pth, label = lbl, schema = DecodeError exc\<rparr>
              | other \<Rightarrow> Inl e)
         | Inr data \<Rightarrow> Inr \<lparr>path = pth, label = lbl, schema = Parsed data\<rparr>)"

definition candidate_paths :: "env \<Rightarrow> path \<Rightarrow> string \<Rightarrow> path \<Rightarrow> path list" where
  "candidate_paths E pth include_target repo_root =
     [path_join E (path_parent E pth) include_target,
      path_join E repo_root include_target,
      path_join E (path_join E repo_root ''json-schema'') include_target]"

definition parse_snippet_block ::
  "env \<Rightarrow> path \<Rightarrow> nat \<Rightarrow> nat \<Rightarrow> string \<Rightarrow> path \<Rightarrow> string \<Rightarrow> error + SchemaSource" where
  "parse_snippet_block E pth start_line block_index include_target repo_root original_block_text =
     (let lbl = block_label pth start_line block_index
      in case find (path_exists E) (candidate_paths E pth include_target repo_root) of
           None \<Rightarrow>
             Inr \<lparr>path = pth, label = lbl,
                  schema = DecodeError
                    \<lparr>msg = ''snippet include not found: '' @ include_target,
                     doc = original_block_text, pos = 0\<rparr>\<rparr>
         | Some include_path \<Rightarrow>
             (case read_text E include_path of
                Inl e \<Rightarrow> Inl e
              | Inr text \<Rightarrow>
                  (case json_loads E text of
                     Inl e \<Rightarrow>
                       (case e of
                          JSONDecodeErr exc \<Rightarrow>
                            Inr \<lparr>path = pth, label = lbl, schema = DecodeError exc\<rparr>
                        | other \<Rightarrow> Inl e)
                   | Inr data \<Rightarrow>
                       Inr \<lparr>path = pth,
                            label = pth @ '':'' @ str_nat start_line @ '' (block ''
                                    @ str_nat block_index @ '', include '' @ include_path @ '')'',
                            schema = Parsed data\<rparr>)))"

section \<open>Fenced blocks of a Markdown file\<close>

text \<open>
  The loop over \<open>enumerate(lines, start=1)\<close>, with its four variables \<open>in_block\<close>,
  \<open>block_start_line\<close>, \<open>block_lines\<close> and \<open>blocks\<close> as arguments.
\<close>

fun scan_lines ::
  "nat \<Rightarrow> string list \<Rightarrow> bool \<Rightarrow> nat \<Rightarrow> string list \<Rightarrow> (nat \<times> string) list
     \<Rightarrow> (nat \<times> string) list" where
  "scan_lines idx [] in_block block_start_line block_lines blocks = blocks"
| "scan_lines idx (line # rest) in_block block_start_line block_lines blocks =
     (let stripped = strip line
      in if \<not> in_block \<and> startswith (lower stripped) ''```json''
         then scan_lines (idx + 1) rest True (idx + 1) [] blocks
         else if in_block \<and> startswith stripped ''```''
         then scan_lines (idx + 1) rest False block_start_line []
                (blocks @ [(block_start_line, join ''\<newline>'' block_lines)])
         else if in_block
         then scan_lines (idx + 1) rest in_block block_start_line (block_lines @ [line]) blocks
         else scan_lines (idx + 1) rest in_block block_start_line block_lines blocks)"

definition extract_blocks :: "string list \<Rightarrow> (nat \<times> string) list" where
  "extract_blocks lines = scan_lines 1 lines False 0 [] []"

text \<open>
  \<open>SNIPPET_DIRECTIVE_RE.match\<close>, the pattern being
  \<^verbatim>\<open>^--8<--\s+["']([^"']+)["']\s*$\<close>: the marker, one or more white-space
  characters, a quote, one or more characters that are no quote, a quote, and white
  space up to the end. No step has a choice (a quote is no white space, and the target
  ends at the first quote), so the match is a left-to-right scan; the result is group 1.
\<close>

definition is_quote :: "char \<Rightarrow> bool" where
  "is_quote c = (c = CHR 0x22 \<or> c = CHR 0x27)"

definition snippet_directive_match :: "string \<Rightarrow> string option" where
  "snippet_directive_match s =
     (if \<not> startswith s ''--8<--'' then None
      else let after_marker = drop 6 s;
               after_space = dropWhile isspace after_marker
           in if after_space = after_marker then None
              else (case after_space of
                      [] \<Rightarrow> None
                    | q # after_quote \<Rightarrow>
                        if \<not> is_quote q then None
                        else let target = takeWhile (\<lambda>c. \<not> is_quote c) after_quote;
                                 closing = dropWhile (\<lambda>c. \<not> is_quote c) after_quote
                             in if target = [] then None
                                else (case closing of
                                        [] \<Rightarrow> None
                                      | q2 # trailing \<Rightarrow>
                                          if list_all isspace trailing then Some target
                                          else None)))"

text \<open>
  The loop over \<open>enumerate(blocks, start=1)\<close>. The generator is consumed by \<open>list\<close>
  in \<open>main\<close>, so an exception in a later block discards the sources of earlier ones.
\<close>

fun blocks_to_sources ::
  "env \<Rightarrow> path \<Rightarrow> path \<Rightarrow> nat \<Rightarrow> (nat \<times> string) list \<Rightarrow> error + SchemaSource list" where
  "blocks_to_sources E pth repo_root block_index [] = Inr []"
| "blocks_to_sources E pth repo_root block_index ((start_line, block_text) # rest) =
     (let stripped_block = strip block_text
      in if stripped_block = [] then blocks_to_sources E pth repo_root (block_index + 1) rest
         else case snippet_directive_match stripped_block of
                Some include_target \<Rightarrow>
                  (case parse_snippet_block E pth start_line block_index include_target
                          repo_root stripped_block of
                     Inl e \<Rightarrow> Inl e
                   | Inr src \<Rightarrow>
                       (case blocks_to_sources E pth repo_root (block_index + 1) rest of
                          Inl e \<Rightarrow> Inl e
                        | Inr srcs \<Rightarrow> Inr (src # srcs)))
              | None \<Rightarrow>
                  (case parse_json_block E pth start_line block_index block_text of
                     Inl e \<Rightarrow> Inl e
                   | Inr src \<Rightarrow>
                       (case blocks_to_sources E pth repo_root (block_index + 1) rest of
                          Inl e \<Rightarrow> Inl e
                        | Inr srcs \<Rightarrow> Inr (src # srcs))))"

definition parse_markdown_json_blocks :: "env \<Rightarrow> path \<Rightarrow> error + SchemaSource list" where
  "parse_markdown_json_blocks E pth =
     (case read_text E pth of
        Inl e \<Rightarrow> Inl e
      | Inr text \<Rightarrow>
          blocks_to_sources E pth (script_repo_root E) 1 (extract_blocks (splitlines text)))"

section \<open>Locating sources\<close>

text \<open>\<open>yield from f(child)\<close> for each child in turn: the first exception ends the walk.\<close>

fun yield_from_all ::
  "(path \<Rightarrow> error + SchemaSource list) \<Rightarrow> path list \<Rightarrow> error + SchemaSource list" where
  "yield_from_all f [] = Inr []"
| "yield_from_all f (child # rest) =
     (case f child of
        Inl e \<Rightarrow> Inl e
      | Inr srcs \<Rightarrow>
          (case yield_from_all f rest of
             Inl e \<Rightarrow> Inl e
           | Inr later \<Rightarrow> Inr (srcs @ later)))"

definition sources_of_path :: "env \<Rightarrow> path \<Rightarrow> error + SchemaSource list" where
  "sources_of_path E pth =
     (if path_is_dir E pth
      then (case yield_from_all (parse_json_file E) (path_rglob E pth ''*.json'') of
              Inl e \<Rightarrow> Inl e
            | Inr js \<Rightarrow>
                (case yield_from_all (parse_markdown_json_blocks E) (path_rglob E pth ''*.md'') of
                   Inl e \<Rightarrow> Inl e
                 | Inr ms \<Rightarrow> Inr (js @ ms)))
      else if lower (path_suffix E pth) = ''.json'' then parse_json_file E pth
      else if lower (path_suffix E pth) = ''.md'' then parse_markdown_json_blocks E pth
      else Inr [])"

definition iter_schema_sources :: "env \<Rightarrow> path list \<Rightarrow> error + SchemaSource list" where
  "iter_schema_sources E paths = yield_from_all (sources_of_path E) paths"

section \<open>The run\<close>

definition resolve_default_paths :: "env \<Rightarrow> path list" where
  "resolve_default_paths E =
     (let default_file =
            path_join E (path_join E (path_join E (path_join E (script_repo_root E) ''docs'')
              ''spec-page'') ''specification'') ''schemas.md''
      in if path_exists E default_file then [default_file] else [script_repo_root E])"

text \<open>The loop of \<open>main\<close> over the sources, with the list \<open>failures\<close> as argument.\<close>

fun check_sources ::
  "env \<Rightarrow> bool \<Rightarrow> SchemaSource list \<Rightarrow> string list \<Rightarrow> error + string list" where
  "check_sources E allow_missing_schema [] failures = Inr failures"
| "check_sources E allow_missing_schema (source # rest) failures =
     (if \<not> allow_missing_schema
      then (case require_draft07 E (schema source) (label source) of
              Inl e \<Rightarrow> Inl e
            | Inr dialect \<Rightarrow>
                check_sources E allow_missing_schema rest
                  ((failures @ dialect) @ validate_schema E (schema source) (label source)))
      else check_sources E allow_missing_schema rest
             (failures @ validate_schema E (schema source) (label source)))"

text \<open>
  \<open>main\<close> returns what it printed, one element for each call of \<open>print\<close>, and its
  return value; \<open>args.paths\<close> and \<open>args.allow_missing_schema\<close> are its arguments.
\<close>

definition main :: "env \<Rightarrow> path list \<Rightarrow> bool \<Rightarrow> error + (string list \<times> nat)" where
  "main E args_paths allow_missing_schema =
     (let paths = (if args_paths \<noteq> [] then args_paths else resolve_default_paths E)
      in case iter_schema_sources E paths of
           Inl e \<Rightarrow> Inl e
         | Inr sources \<Rightarrow>
             if sources = [] then Inr ([''No JSON schemas found.''], 1)
             else (case check_sources E allow_missing_schema sources [] of
                     Inl e \<Rightarrow> Inl e
                   | Inr failures \<Rightarrow>
                       if failures \<noteq> []
                       then Inr (''Schema verification failed:\<newline>''
                                   # map (\<lambda>failure. ''- '' @ failure) failures, 1)
                       else Inr ([''OK: '' @ str_nat (length sources)
                                    @ '' schema(s) verified as Draft 07''], 0)))"

text \<open>
  The exit status of \<open>raise SystemExit(main())\<close>: the value \<open>main\<close> returns, and 1
  when an exception leaves \<open>main\<close> (the interpreter prints the traceback and exits
  with 1).
\<close>

definition exit_status :: "error + (string list \<times> nat) \<Rightarrow> nat" where
  "exit_status r = (case r of Inl e \<Rightarrow> 1 | Inr (printed, code) \<Rightarrow> code)"

section \<open>A sample tree\<close>

text \<open>
  A small file tree on which the model is run. The script lies under \<open>/repo\<close>; the
  scanned files lie under \<open>/work\<close>. The include target \<open>foo.json\<close> of the Markdown
  file is absent beside it, present at the root and present under \<open>json-schema\<close>.
\<close>

definition good_text :: string where
  \<open>good_text = ''{"$schema": "http://json-schema.org/draft-07/schema#"}''\<close>

definition good_schema :: json where
  "good_schema = JObject [(''$schema'', JString ''http://json-schema.org/draft-07/schema#'')]"

definition bad_text :: string where
  "bad_text = ''{not valid json''"

definition bad_error :: JSONDecodeError where
  "bad_error = \<lparr>msg = ''Expecting property name enclosed in double quotes'',
                 doc = bad_text, pos = 1\<rparr>"

definition markdown_lines :: "string list" where
  \<open>markdown_lines =
     [''# Schemas'',
      ''```json'',
      ''{}'',
      ''```'',
      ''```JSON'',
      ''{not valid json'',
      ''```'',
      ''```json'',
      ''--8<-- "foo.json"'',
      ''```'']\<close>

definition sample_files :: "(path \<times> string) list" where
  "sample_files =
     [(''/work/schemas/good.json'', good_text),
      (''/work/schemas/bad.json'', bad_text),
      (''/work/docs/schemas.md'', join ''\<newline>'' markdown_lines),
      (''/repo/foo.json'', good_text),
      (''/repo/json-schema/foo.json'', ''{}'')]"

definition sample_dirs :: "path list" where
  "sample_dirs = [''/work'', ''/work/schemas'', ''/work/docs'', ''/repo'', ''/repo/json-schema'']"

text \<open>\<open>json.loads\<close> on the texts of the tree.\<close>

definition sample_loads :: "string \<Rightarrow> error + json" where
  "sample_loads text =
     (if text = good_text then Inr good_schema
      else if text = ''{}'' then Inr (JObject [])
      else if text = bad_text then Inl (JSONDecodeErr bad_error)
      else Inl (JSONDecodeErr \<lparr>msg = ''Expecting value'', doc = text, pos = 0\<rparr>))"

definition sample_env :: env where
  "sample_env =
     \<lparr>path_exists = (\<lambda>p. p \<in> set (map fst sample_files) \<or> p \<in> set sample_dirs),
      path_is_dir = (\<lambda>p. p \<in> set sample_dirs),
      read_text = (\<lambda>p. case map_of sample_files p of
                          Some text \<Rightarrow> Inr text
                        | None \<Rightarrow> Inl (OSError ''No such file or directory'')),
      path_rglob = (\<lambda>p pattern.
                      filter (\<lambda>f. startswith f (p @ ''/'') \<and>
                                   startswith (rev f) (rev (drop 1 pattern)))
                        (map fst sample_files)),
      path_parent = (\<lambda>p. rev (drop 1 (dropWhile (\<lambda>c. c \<noteq> CHR ''/'') (rev p)))),
      path_join = (\<lambda>p name. p @ ''/'' @ name),
      path_suffix = (\<lambda>p. if CHR ''.'' \<in> set p
                            then CHR ''.'' # rev (takeWhile (\<lambda>c. c \<noteq> CHR ''.'') (rev p))
                            else []),
      json_loads = sample_loads,
      check_schema = (\<lambda>v. None),
      py_repr = (\<lambda>v. if v = JNull then ''None'' else ''...''),
      script_repo_root = ''/repo''\<rparr>"

text \<open>
  The sample tree with one more file, \<open>/work/schemas/title.json\<close>, whose schema
  gives \<open>title\<close> a number. \<open>check_schema\<close> raises on it, and the text of the
  exception has seven lines.
\<close>

definition title_text :: string where
  \<open>title_text = ''{"title": 1}''\<close>

definition title_schema :: json where
  "title_schema = JObject [(''title'', JInt 1)]"

definition title_message :: string where
  "title_message =
     ''1 is not of type 'string'\<newline>\<newline>Failed validating 'type' in metaschema['properties']['title']:\<newline>    {'type': 'string'}\<newline>\<newline>On schema['title']:\<newline>    1''"

definition title_env :: env where
  "title_env =
     sample_env
       \<lparr>read_text := (\<lambda>p. if p = ''/work/schemas/title.json'' then Inr title_text
                          else read_text sample_env p),
        json_loads := (\<lambda>text. if text = title_text then Inr title_schema
                               else sample_loads text),
        check_schema := (\<lambda>v. if v = title_schema then Some title_message else None)\<rparr>"

text \<open>The sources of \<open>/work/docs/schemas.md\<close>, and the failures of the run on them.\<close>

definition sample_sources :: "SchemaSource list" where
  "sample_sources =
     [\<lparr>path = ''/work/docs/schemas.md'', label = ''/work/docs/schemas.md:3 (block 1)'',
       schema = Parsed (JObject [])\<rparr>,
      \<lparr>path = ''/work/docs/schemas.md'', label = ''/work/docs/schemas.md:6 (block 2)'',
       schema = DecodeError bad_error\<rparr>,
      \<lparr>path = ''/work/docs/schemas.md'',
       label = ''/work/docs/schemas.md:9 (block 3, include /repo/foo.json)'',
       schema = Parsed good_schema\<rparr>]"

text \<open>The one source of \<open>/work/schemas/good.json\<close>.\<close>

definition good_sources :: "SchemaSource list" where
  "good_sources =
     [\<lparr>path = ''/work/schemas/good.json'', label = ''/work/schemas/good.json'',
       schema = Parsed good_schema\<rparr>]"

definition sample_failures :: "string list" where
  "sample_failures =
     [''/work/docs/schemas.md:3 (block 1): $schema must be Draft 07 (got None)'',
      ''/work/docs/schemas.md:6 (block 2): schema must be a JSON object'',
      ''/work/docs/schemas.md:6 (block 2): invalid JSON (Expecting property name enclosed in double quotes)'']"

section \<open>Properties of the loop over the sources\<close>

text \<open>
  The list \<open>failures\<close> only grows: a run from any list is the run from the empty list
  with the start put in front.
\<close>

lemma check_sources_acc:
  "check_sources E allow sources acc =
     (case check_sources E allow sources [] of Inl e \<Rightarrow> Inl e | Inr fs \<Rightarrow> Inr (acc @ fs))"
proof (induction sources arbitrary: acc)
  case Nil
  then show ?case by simp
next
  case (Cons s rest)
  note IH = Cons.IH
  show ?case
  proof (cases allow)
    case True
    then show ?thesis
      using IH [of "acc @ validate_schema E (schema s) (label s)"]
            IH [of "validate_schema E (schema s) (label s)"]
      by (simp split: sum.splits)
  next
    case False
    show ?thesis
    proof (cases "require_draft07 E (schema s) (label s)")
      case (Inl e)
      with False show ?thesis by simp
    next
      case (Inr d)
      with False show ?thesis
        using IH [of "(acc @ d) @ validate_schema E (schema s) (label s)"]
              IH [of "d @ validate_schema E (schema s) (label s)"]
        by (simp split: sum.splits)
    qed
  qed
qed

lemma check_sources_append:
  "check_sources E allow (xs @ ys) acc =
     (case check_sources E allow xs acc of Inl e \<Rightarrow> Inl e | Inr fs \<Rightarrow> check_sources E allow ys fs)"
  by (induction xs arbitrary: acc) (auto split: sum.splits)

lemma check_sources_Cons_unset:
  "check_sources E False (s # rest) [] =
     (case require_draft07 E (schema s) (label s) of
        Inl e \<Rightarrow> Inl e
      | Inr d \<Rightarrow>
          (case check_sources E False rest [] of
             Inl e \<Rightarrow> Inl e
           | Inr fs \<Rightarrow> Inr ((d @ validate_schema E (schema s) (label s)) @ fs)))"
proof (cases "require_draft07 E (schema s) (label s)")
  case (Inl e)
  then show ?thesis by simp
next
  case (Inr d)
  then show ?thesis
    using check_sources_acc [of E False rest "d @ validate_schema E (schema s) (label s)"]
    by simp
qed

lemma check_sources_Cons_set:
  "check_sources E True (s # rest) [] =
     (case check_sources E True rest [] of
        Inl e \<Rightarrow> Inl e
      | Inr fs \<Rightarrow> Inr (validate_schema E (schema s) (label s) @ fs))"
  using check_sources_acc [of E True rest "validate_schema E (schema s) (label s)"]
  by simp

lemma check_sources_unset_returns:
  "list_all2 (\<lambda>source d. require_draft07 E (schema source) (label source) = Inr d)
     sources dialect \<Longrightarrow>
   check_sources E False sources [] =
     Inr (concat (map (\<lambda>(source, d). d @ validate_schema E (schema source) (label source))
                    (zip sources dialect)))"
proof (induction sources dialect rule: list_all2_induct)
  case Nil
  then show ?case by simp
next
  case (Cons s d rest ds)
  then show ?case
    by (simp add: check_sources_Cons_unset del: check_sources.simps(2))
qed

lemma check_sources_unset_returned:
  "check_sources E False sources [] = Inr failures \<Longrightarrow>
   \<exists>dialect.
     list_all2 (\<lambda>source d. require_draft07 E (schema source) (label source) = Inr d)
       sources dialect \<and>
     failures = concat (map (\<lambda>(source, d). d @ validate_schema E (schema source) (label source))
                          (zip sources dialect))"
proof (induction sources arbitrary: failures)
  case Nil
  then show ?case by simp
next
  case (Cons s rest)
  from Cons.prems obtain d fs where
    d: "require_draft07 E (schema s) (label s) = Inr d" and
    fs: "check_sources E False rest [] = Inr fs" and
    failures: "failures = (d @ validate_schema E (schema s) (label s)) @ fs"
    unfolding check_sources_Cons_unset by (auto split: sum.splits)
  from Cons.IH [OF fs] obtain ds where
    ds: "list_all2 (\<lambda>source d. require_draft07 E (schema source) (label source) = Inr d) rest ds"
    and fs_eq: "fs = concat (map (\<lambda>(source, d). d @ validate_schema E (schema source) (label source))
                          (zip rest ds))"
    by blast
  have "list_all2 (\<lambda>source d. require_draft07 E (schema source) (label source) = Inr d)
          (s # rest) (d # ds)"
    using d ds by simp
  moreover have "failures =
      concat (map (\<lambda>(source, d). d @ validate_schema E (schema source) (label source))
                (zip (s # rest) (d # ds)))"
    using failures fs_eq by simp
  ultimately show ?case by blast
qed

lemma check_sources_set_returns:
  "check_sources E True sources [] =
     Inr (concat (map (\<lambda>source. validate_schema E (schema source) (label source)) sources))"
  by (induction sources) (simp_all add: check_sources_Cons_set del: check_sources.simps(2))

text \<open>Every failure starts with the label of its source.\<close>

lemma require_draft07_labelled:
  "require_draft07 E sch lbl = Inr d \<Longrightarrow> f \<in> set d \<Longrightarrow> \<exists>m. f = lbl @ '': '' @ m"
  by (auto simp: require_draft07_def Let_def split: if_splits sum.splits)

lemma validate_schema_labelled:
  "f \<in> set (validate_schema E sch lbl) \<Longrightarrow> \<exists>m. f = lbl @ '': '' @ m"
  by (auto simp: validate_schema_def split: schema_object.splits if_splits option.splits)

lemma check_sources_set_labelled:
  "check_sources E True sources [] = Inr failures \<Longrightarrow> f \<in> set failures \<Longrightarrow>
   \<exists>source \<in> set sources. \<exists>m. f = label source @ '': '' @ m"
  unfolding check_sources_set_returns
  using validate_schema_labelled by fastforce

lemma check_sources_unset_labelled:
  "check_sources E False sources [] = Inr failures \<Longrightarrow> f \<in> set failures \<Longrightarrow>
   \<exists>source \<in> set sources. \<exists>m. f = label source @ '': '' @ m"
proof (induction sources arbitrary: failures)
  case Nil
  then show ?case by simp
next
  case (Cons s rest)
  from Cons.prems(1) obtain d fs where
    d: "require_draft07 E (schema s) (label s) = Inr d" and
    fs: "check_sources E False rest [] = Inr fs" and
    failures: "failures = (d @ validate_schema E (schema s) (label s)) @ fs"
    unfolding check_sources_Cons_unset by (auto split: sum.splits)
  from Cons.prems(2) failures
  consider "f \<in> set d" | "f \<in> set (validate_schema E (schema s) (label s))" | "f \<in> set fs"
    by auto
  then show ?case
  proof cases
    case 1
    then show ?thesis using require_draft07_labelled [OF d] by fastforce
  next
    case 2
    then show ?thesis using validate_schema_labelled by fastforce
  next
    case 3
    then show ?thesis using Cons.IH [OF fs] by auto
  qed
qed

lemma check_sources_labelled:
  assumes "check_sources E allow sources [] = Inr failures" and "f \<in> set failures"
  shows "\<exists>source \<in> set sources. \<exists>m. f = label source @ '': '' @ m"
proof (cases allow)
  case True
  with assms(1) have "check_sources E True sources [] = Inr failures" by simp
  from check_sources_set_labelled [OF this assms(2)] show ?thesis .
next
  case False
  with assms(1) have "check_sources E False sources [] = Inr failures" by simp
  from check_sources_unset_labelled [OF this assms(2)] show ?thesis .
qed

section \<open>Properties of the scan of a Markdown file\<close>

text \<open>
  The blocks found so far are only extended; outside a block the start line and the
  buffer are not read; inside a block, lines that are no fence go to the buffer.
\<close>

lemma scan_lines_blocks:
  "scan_lines idx lines in_block bsl bl blocks = blocks @ scan_lines idx lines in_block bsl bl []"
proof (induction lines arbitrary: idx in_block bsl bl blocks)
  case Nil
  then show ?case by simp
next
  case (Cons line rest)
  show ?case
    using Cons.IH [of "idx + 1" False bsl "[]" "blocks @ [(bsl, join ''\<newline>'' bl)]"]
          Cons.IH [of "idx + 1" False bsl "[]" "[(bsl, join ''\<newline>'' bl)]"]
          Cons.IH [of "idx + 1" True "idx + 1" "[]" blocks]
          Cons.IH [of "idx + 1" True bsl "bl @ [line]" blocks]
          Cons.IH [of "idx + 1" False bsl bl blocks]
    by (cases in_block) (simp_all add: Let_def)
qed

lemma scan_lines_outside:
  "scan_lines idx lines False bsl bl blocks = scan_lines idx lines False 0 [] blocks"
proof (induction lines arbitrary: idx)
  case Nil
  then show ?case by simp
next
  case (Cons line rest)
  then show ?case by (simp add: Let_def)
qed

lemma scan_lines_body:
  "\<forall>b \<in> set body. \<not> startswith (strip b) ''```'' \<Longrightarrow>
   scan_lines idx (body @ rest) True bsl bl blocks =
     scan_lines (idx + length body) rest True bsl (bl @ body) blocks"
proof (induction body arbitrary: idx bl)
  case Nil
  then show ?case by simp
next
  case (Cons b body)
  then show ?case by (simp add: Let_def)
qed

section \<open>Properties of the loop over the blocks\<close>

text \<open>
  The sources of a list of blocks are the sources of its front part followed by those
  of its back part, the block index running on; the first exception wins.
\<close>

lemma blocks_to_sources_append:
  "blocks_to_sources E pth root k (xs @ ys) =
     (case blocks_to_sources E pth root k xs of
        Inl e \<Rightarrow> Inl e
      | Inr a \<Rightarrow>
          (case blocks_to_sources E pth root (k + length xs) ys of
             Inl e \<Rightarrow> Inl e
           | Inr b \<Rightarrow> Inr (a @ b)))"
proof (induction xs arbitrary: k)
  case Nil
  then show ?case by (simp split: sum.splits)
next
  case (Cons x xs)
  obtain start_line block_text where x: "x = (start_line, block_text)" by (cases x)
  show ?case
    unfolding x using Cons.IH [of "k + 1"]
    by (simp add: Let_def split: sum.splits option.splits)
qed

lemma blocks_to_sources_length:
  "blocks_to_sources E pth root k blocks = Inr sources \<Longrightarrow>
   length sources = length (filter (\<lambda>(start_line, block_text). strip block_text \<noteq> []) blocks)"
proof (induction blocks arbitrary: k sources)
  case Nil
  then show ?case by simp
next
  case (Cons x xs)
  obtain start_line block_text where x: "x = (start_line, block_text)" by (cases x)
  from Cons.prems show ?case
    unfolding x using Cons.IH [of "k + 1"]
    by (auto simp: Let_def split: sum.splits option.splits if_splits)
qed

section \<open>The dialect check where the membership test returns\<close>

lemma require_draft07_not_dict:
  "\<not> isinstance_dict sch \<Longrightarrow>
   require_draft07 E sch lbl = Inr [lbl @ '': schema must be a JSON object'']"
  by (simp add: require_draft07_def)

lemma require_draft07_hashable:
  "isinstance_dict sch \<Longrightarrow>
   not_in_DRAFT07_URIS (dict_get (dict_items sch) ''$schema'') = Inr absent \<Longrightarrow>
   require_draft07 E sch lbl =
     Inr (if absent
          then [lbl @ '': $schema must be Draft 07 (got ''
                  @ py_repr E (dict_get (dict_items sch) ''$schema'') @ '')'']
          else [])"
  by (simp add: require_draft07_def Let_def)

section \<open>Lines of a printed text\<close>

text \<open>
  A text without a line break is one line, and no line of a text holds a line break;
  the digits of a number are no line breaks.
\<close>

lemma is_linebreak_CR_LF: "is_linebreak (CHR 0x0D)" "is_linebreak (CHR 0x0A)"
  by (simp_all add: is_linebreak_def)

lemma splitlines_from_no_linebreak:
  "\<forall>c \<in> set s. \<not> is_linebreak c \<Longrightarrow> cur @ s \<noteq> [] \<Longrightarrow> splitlines_from cur s = [cur @ s]"
proof (induction cur s rule: splitlines_from.induct)
  case (1 cur)
  then show ?case by simp
next
  case (2 cur c)
  then show ?case by simp
next
  case (3 cur c d cs)
  from "3.prems" have c: "\<not> is_linebreak c" and rest: "\<forall>x \<in> set (d # cs). \<not> is_linebreak x"
    by simp_all
  from c is_linebreak_CR_LF(1) have "c \<noteq> CHR 0x0D" by blast
  with c have "splitlines_from cur (c # d # cs) = splitlines_from (cur @ [c]) (d # cs)"
    by simp
  also have "\<dots> = [(cur @ [c]) @ d # cs]"
    using "3.IH"(3) c \<open>c \<noteq> CHR 0x0D\<close> rest by simp
  finally show ?case by simp
qed

lemma splitlines_from_lines:
  "\<forall>c \<in> set cur. \<not> is_linebreak c \<Longrightarrow> l \<in> set (splitlines_from cur s) \<Longrightarrow>
   c \<in> set l \<Longrightarrow> \<not> is_linebreak c"
proof (induction cur s arbitrary: l c rule: splitlines_from.induct)
  case (1 cur)
  then show ?case by (auto split: if_splits)
next
  case (2 cur x)
  then show ?case by (auto split: if_splits)
next
  case (3 cur x d cs)
  show ?case
  proof (cases "x = CHR 0x0D \<and> d = CHR 0x0A")
    case True
    with "3.prems"(2) have "l = cur \<or> l \<in> set (splitlines_from [] cs)" by simp
    then show ?thesis
      using "3.prems"(1,3) "3.IH"(1) [OF True, of l c] by auto
  next
    case False
    note not_crlf = this
    show ?thesis
    proof (cases "is_linebreak x")
      case True
      with not_crlf "3.prems"(2) have "l = cur \<or> l \<in> set (splitlines_from [] (d # cs))" by auto
      then show ?thesis
        using "3.prems"(1,3) "3.IH"(2) [OF not_crlf True, of l c] by auto
    next
      case False
      with not_crlf "3.prems"(2) have "l \<in> set (splitlines_from (cur @ [x]) (d # cs))" by auto
      moreover have "\<forall>c \<in> set (cur @ [x]). \<not> is_linebreak c"
        using "3.prems"(1) False by simp
      ultimately show ?thesis
        using "3.prems"(3) "3.IH"(3) [OF not_crlf False, of l c] by blast
    qed
  qed
qed

lemma splitlines_one_line_iff:
  assumes "s \<noteq> []"
  shows "splitlines s = [s] \<longleftrightarrow> (\<forall>c \<in> set s. \<not> is_linebreak c)"
proof
  assume one: "splitlines s = [s]"
  show "\<forall>c \<in> set s. \<not> is_linebreak c"
  proof
    fix c assume "c \<in> set s"
    moreover have "s \<in> set (splitlines_from [] s)"
      using one by (simp add: splitlines_def)
    ultimately show "\<not> is_linebreak c"
      using splitlines_from_lines [of "[]" s s c] by simp
  qed
next
  assume "\<forall>c \<in> set s. \<not> is_linebreak c"
  with assms show "splitlines s = [s]"
    using splitlines_from_no_linebreak [of s "[]"] by (simp add: splitlines_def)
qed

lemma is_linebreak_code:
  "is_linebreak c \<Longrightarrow> (of_char c :: nat) < 48 \<or> (of_char c :: nat) > 57"
  by (auto simp: is_linebreak_def)

lemma digit_no_linebreak:
  fixes d :: nat
  assumes "d < 10"
  shows "\<not> is_linebreak (char_of (48 + d))"
proof
  assume "is_linebreak (char_of (48 + d))"
  from is_linebreak_code [OF this]
  have "(48 + d) mod 256 < 48 \<or> (48 + d) mod 256 > 57" by simp
  moreover have "(48 + d) mod 256 = 48 + d" using assms by simp
  ultimately show False using assms by simp
qed

lemma str_nat_no_linebreak:
  "c \<in> set (str_nat n) \<Longrightarrow> \<not> is_linebreak c"
proof (induction n arbitrary: c rule: str_nat.induct)
  case (1 n)
  show ?case
  proof (cases "n < 10")
    case True
    with "1.prems" have "c = char_of (48 + n)"
      by (simp add: str_nat.simps [of n])
    with True show ?thesis by (simp add: digit_no_linebreak)
  next
    case False
    with "1.prems" consider "c \<in> set (str_nat (n div 10))" | "c = char_of (48 + n mod 10)"
      by (auto simp: str_nat.simps [of n])
    then show ?thesis
    proof cases
      case 1
      with "1.IH" [OF False] show ?thesis by blast
    next
      case 2
      then show ?thesis by (simp add: digit_no_linebreak)
    qed
  qed
qed

section \<open>Running the model on the sample tree\<close>

lemmas sample_defs =
  sample_env_def sample_sources_def sample_failures_def sample_files_def sample_dirs_def
  sample_loads_def good_text_def good_schema_def bad_text_def bad_error_def markdown_lines_def

lemmas validator_defs =
  require_draft07_def validate_schema_def dict_get_def DRAFT07_URIS_def

lemma sample_markdown_sources:
  "iter_schema_sources sample_env [''/work/docs/schemas.md''] = Inr sample_sources"
  by (simp add: sample_defs iter_schema_sources_def sources_of_path_def
        parse_markdown_json_blocks_def extract_blocks_def splitlines_def
        parse_snippet_block_def parse_json_block_def candidate_paths_def block_label_def
        snippet_directive_match_def is_quote_def
        startswith_def lower_def lower_char_def strip_def isspace_def is_linebreak_def
        str_nat.simps char_of_eq_iff Let_def)

lemma sample_json_sources:
  "iter_schema_sources sample_env [''/work/schemas/good.json''] = Inr good_sources"
  by (simp add: sample_defs good_sources_def iter_schema_sources_def sources_of_path_def
        parse_json_file_def lower_def lower_char_def)

lemma sample_json_failures:
  "check_sources sample_env False good_sources [] = Inr []"
  by (simp add: sample_defs good_sources_def validator_defs)

lemma sample_markdown_failures:
  "check_sources sample_env False sample_sources [] = Inr sample_failures"
  by (simp add: sample_defs validator_defs)

section \<open>The order of the failures\<close>

text \<open>
  Claim C4. With the dialect requirement on, the loop returns a list of failures exactly
  when the dialect check returned on every source, and the list is then, source by
  source in the order of discovery, what the dialect check returned for the source
  followed by what the structural check returned for it. The structural check runs on
  a source whatever the dialect check returned for it, empty or not.
\<close>

theorem check_sources_order:
  "check_sources E False sources [] = Inr failures \<longleftrightarrow>
     (\<exists>dialect.
        list_all2 (\<lambda>source d. require_draft07 E (schema source) (label source) = Inr d)
          sources dialect \<and>
        failures = concat (map (\<lambda>(source, d). d @ validate_schema E (schema source) (label source))
                             (zip sources dialect)))"
  using check_sources_unset_returned [of E sources failures]
        check_sources_unset_returns [of E sources]
  by auto

theorem check_sources_order_witness:
  "check_sources sample_env False sample_sources [] = Inr sample_failures"
  by (rule check_sources_order [THEN iffD2],
      rule exI [of _ "[[''/work/docs/schemas.md:3 (block 1): $schema must be Draft 07 (got None)''],
                       [''/work/docs/schemas.md:6 (block 2): schema must be a JSON object''],
                       []]"])
     (simp add: sample_defs validator_defs)

section \<open>The option that lifts the dialect requirement\<close>

text \<open>
  Claim C9. With \<open>allow_missing_schema\<close> set, the failures are the structural
  failures of the sources and nothing else. With the option unset, a run that returns
  gives, for each source, the failures of the dialect check followed by the same
  structural failures.
\<close>

theorem allow_missing_schema_skips_dialect:
  "(let structural = map (\<lambda>source. validate_schema E (schema source) (label source)) sources
    in check_sources E True sources [] = Inr (concat structural) \<and>
       (\<forall>failures.
          check_sources E False sources [] = Inr failures \<longrightarrow>
          (\<exists>dialect.
             list_all2 (\<lambda>source d. require_draft07 E (schema source) (label source) = Inr d)
               sources dialect \<and>
             failures = concat (map (\<lambda>(d, st). d @ st) (zip dialect structural)))))"
proof -
  have zip_eq: "map (\<lambda>(source, d). d @ validate_schema E (schema source) (label source))
                  (zip sources dialect) =
                map (\<lambda>(d, st). d @ st)
                  (zip dialect (map (\<lambda>source. validate_schema E (schema source) (label source)) sources))"
    if "length sources = length dialect" for dialect
    using that by (induction sources dialect rule: list_induct2) simp_all
  show ?thesis
    unfolding Let_def
  proof (intro conjI allI impI)
    show "check_sources E True sources [] =
            Inr (concat (map (\<lambda>source. validate_schema E (schema source) (label source)) sources))"
      by (rule check_sources_set_returns)
  next
    fix failures
    assume "check_sources E False sources [] = Inr failures"
    from check_sources_unset_returned [OF this] obtain dialect where
      d: "list_all2 (\<lambda>source d. require_draft07 E (schema source) (label source) = Inr d)
            sources dialect" and
      f: "failures = concat (map (\<lambda>(source, d). d @ validate_schema E (schema source) (label source))
                               (zip sources dialect))"
      by blast
    from d have "length sources = length dialect" by (rule list_all2_lengthD)
    from f zip_eq [OF this] d
    show "\<exists>dialect.
            list_all2 (\<lambda>source d. require_draft07 E (schema source) (label source) = Inr d)
              sources dialect \<and>
            failures = concat (map (\<lambda>(d, st). d @ st)
              (zip dialect (map (\<lambda>source. validate_schema E (schema source) (label source)) sources)))"
      by auto
  qed
qed

theorem allow_missing_schema_skips_dialect_witness:
  "check_sources sample_env True sample_sources [] =
     Inr [''/work/docs/schemas.md:6 (block 2): invalid JSON (Expecting property name enclosed in double quotes)''] \<and>
   check_sources sample_env False sample_sources [] = Inr sample_failures \<and>
   (\<exists>dialect.
      list_all2 (\<lambda>source d. require_draft07 sample_env (schema source) (label source) = Inr d)
        sample_sources dialect \<and>
      sample_failures = concat (map (\<lambda>(d, st). d @ st)
        (zip dialect (map (\<lambda>source. validate_schema sample_env (schema source) (label source))
                        sample_sources))))"
proof -
  have run: "check_sources sample_env False sample_sources [] = Inr sample_failures"
    by (simp add: sample_defs validator_defs)
  have structural:
    "map (\<lambda>source. validate_schema sample_env (schema source) (label source)) sample_sources =
       [[], [''/work/docs/schemas.md:6 (block 2): invalid JSON (Expecting property name enclosed in double quotes)''], []]"
    by (simp add: sample_defs validator_defs)
  show ?thesis
    using allow_missing_schema_skips_dialect [of sample_env sample_sources] run
    by (simp add: Let_def structural)
qed

section \<open>A parse error under the dialect requirement\<close>

text \<open>
  Claim C10. A source that carries a captured parse error adds two consecutive
  failures when the dialect requirement is on: first "schema must be a JSON object"
  from the dialect check, then "invalid JSON" with the message of the error from the
  structural check. They stand between the failures of the sources before it and those
  of the sources after it.
\<close>

theorem parse_error_reported_twice:
  "schema source = DecodeError exc \<Longrightarrow>
   check_sources E False (before @ source # after) [] =
     (case check_sources E False before [] of
        Inl e \<Rightarrow> Inl e
      | Inr earlier \<Rightarrow>
          (case check_sources E False after [] of
             Inl e \<Rightarrow> Inl e
           | Inr later \<Rightarrow>
               Inr (earlier @ [label source @ '': schema must be a JSON object'',
                               label source @ '': invalid JSON ('' @ msg exc @ '')''] @ later)))"
proof -
  assume s: "schema source = DecodeError exc"
  have step: "check_sources E False (source # after) acc =
      check_sources E False after
        (acc @ [label source @ '': schema must be a JSON object'',
                label source @ '': invalid JSON ('' @ msg exc @ '')''])" for acc
    using s by (simp add: require_draft07_def validate_schema_def)
  show ?thesis
    unfolding check_sources_append step
    by (simp add: check_sources_acc [of E False after "_ @ _"] split: sum.splits)
qed

theorem parse_error_reported_twice_witness:
  "schema (sample_sources ! 1) = DecodeError bad_error \<and>
   check_sources sample_env False ([sample_sources ! 0] @ sample_sources ! 1 # [sample_sources ! 2]) []
     = Inr ([''/work/docs/schemas.md:3 (block 1): $schema must be Draft 07 (got None)'']
            @ [''/work/docs/schemas.md:6 (block 2): schema must be a JSON object'',
               ''/work/docs/schemas.md:6 (block 2): invalid JSON (Expecting property name enclosed in double quotes)'']
            @ [])"
proof -
  have h: "schema (sample_sources ! 1) = DecodeError bad_error"
    by (simp add: sample_defs)
  have before: "check_sources sample_env False [sample_sources ! 0] []
                  = Inr [''/work/docs/schemas.md:3 (block 1): $schema must be Draft 07 (got None)'']"
    by (simp add: sample_defs validator_defs)
  have after: "check_sources sample_env False [sample_sources ! 2] [] = Inr []"
    by (simp add: sample_defs validator_defs)
  have lbl: "label (sample_sources ! 1) = ''/work/docs/schemas.md:6 (block 2)''"
    by (simp add: sample_defs)
  have m: "msg bad_error = ''Expecting property name enclosed in double quotes''"
    by (simp add: bad_error_def)
  show ?thesis
    using h parse_error_reported_twice [OF h, of sample_env "[sample_sources ! 0]" "[sample_sources ! 2]"]
    by (simp only: before after lbl m sum.case) simp
qed

section \<open>The structural validator\<close>

text \<open>
  Claim C6. On a captured parse error the structural validator returns one failure,
  "invalid JSON" with the message of the error, whatever \<open>check_schema\<close> would do:
  the meta-schema validation is not reached. On a value that is no object it returns
  "schema must be a JSON object"; the dialect check returns the same failure for that
  value, and a run on such a source has the failure twice with the dialect requirement
  on and once with it off.
\<close>

theorem validate_schema_contract:
  "validate_schema (E\<lparr>check_schema := f\<rparr>) (DecodeError exc) lbl
     = [lbl @ '': invalid JSON ('' @ msg exc @ '')''] \<and>
   (\<not> isinstance_dict (Parsed v) \<longrightarrow>
      validate_schema E (Parsed v) lbl = [lbl @ '': schema must be a JSON object''] \<and>
      require_draft07 E (Parsed v) lbl = Inr [lbl @ '': schema must be a JSON object''] \<and>
      (schema source = Parsed v \<longrightarrow>
         check_sources E False [source] [] =
           Inr [label source @ '': schema must be a JSON object'',
                label source @ '': schema must be a JSON object''] \<and>
         check_sources E True [source] [] =
           Inr [label source @ '': schema must be a JSON object'']))"
  by (simp add: validate_schema_def require_draft07_def)

theorem validate_schema_contract_witness:
  "\<not> isinstance_dict (Parsed (JArray [])) \<and>
   validate_schema sample_env (Parsed (JArray [])) ''a.json'' = [''a.json: schema must be a JSON object''] \<and>
   check_sources sample_env False [\<lparr>path = ''a.json'', label = ''a.json'', schema = Parsed (JArray [])\<rparr>] [] =
     Inr [''a.json: schema must be a JSON object'', ''a.json: schema must be a JSON object'']"
  using validate_schema_contract [where E = sample_env and v = "JArray []" and lbl = "''a.json''"
          and source = "\<lparr>path = ''a.json'', label = ''a.json'', schema = Parsed (JArray [])\<rparr>"]
  by simp

section \<open>The dialect check on a value that has no hash\<close>

text \<open>
  Claim C5. The dialect check is to return one failure naming the value of
  \<open>$schema\<close> whenever that value is none of the four Draft 07 spellings. On the
  object \<open>{"$schema": []}\<close> it returns nothing: the membership test raises
  \<open>TypeError\<close>, because a list cannot be hashed.
\<close>

theorem require_draft07_unhashable_schema_uri:
  "require_draft07 E (Parsed (JObject [(''$schema'', JArray [])])) lbl
     = Inl (TypeError (''unhashable type: '' @ [CHR 0x27] @ ''list'' @ [CHR 0x27]))"
  by (simp add: require_draft07_def dict_get_def)

section \<open>The exit status and the report\<close>

text \<open>
  Claim C7, as amended. The exit status is 0 exactly when the sources were found, are
  not empty, and the checks returned no failure; otherwise it is 1. With no source, the
  run prints "No JSON schemas found." and returns 1. With sources and no failure it
  prints one summary line with the number of sources and returns 0. With failures it
  prints the header and then, by one call of \<open>print\<close> for each failure in order, "- "
  followed by the failure, and returns 1; each failure is the label of a source, ": ",
  and a message, and what is printed for it is one line exactly when the failure holds
  no line break.
\<close>

theorem main_exit_status:
  "(let paths = (if args_paths \<noteq> [] then args_paths else resolve_default_paths E);
        result = main E args_paths allow
    in (exit_status result = 0 \<longleftrightarrow>
          (\<exists>sources. iter_schema_sources E paths = Inr sources \<and> sources \<noteq> [] \<and>
                     check_sources E allow sources [] = Inr [])) \<and>
       (exit_status result = 0 \<or> exit_status result = 1) \<and>
       (iter_schema_sources E paths = Inr [] \<longrightarrow>
          result = Inr ([''No JSON schemas found.''], 1)) \<and>
       (\<forall>sources failures.
          iter_schema_sources E paths = Inr sources \<and> sources \<noteq> [] \<and>
          check_sources E allow sources [] = Inr failures \<longrightarrow>
          (failures = [] \<longrightarrow>
             result = Inr ([''OK: '' @ str_nat (length sources)
                              @ '' schema(s) verified as Draft 07''], 0) \<and>
             splitlines (''OK: '' @ str_nat (length sources)
                           @ '' schema(s) verified as Draft 07'') =
               [''OK: '' @ str_nat (length sources) @ '' schema(s) verified as Draft 07'']) \<and>
          (failures \<noteq> [] \<longrightarrow>
             result = Inr (''Schema verification failed:\<newline>''
                             # map (\<lambda>failure. ''- '' @ failure) failures, 1)) \<and>
          (\<forall>failure \<in> set failures.
             (\<exists>source \<in> set sources. \<exists>message.
                failure = label source @ '': '' @ message) \<and>
             (splitlines (''- '' @ failure) = [''- '' @ failure] \<longleftrightarrow>
                (\<forall>c \<in> set failure. \<not> is_linebreak c)))))"
proof -
  define paths where "paths = (if args_paths \<noteq> [] then args_paths else resolve_default_paths E)"
  define result where "result = main E args_paths allow"
  have result_eq: "result =
     (case iter_schema_sources E paths of
        Inl e \<Rightarrow> Inl e
      | Inr sources \<Rightarrow>
          if sources = [] then Inr ([''No JSON schemas found.''], 1)
          else (case check_sources E allow sources [] of
                  Inl e \<Rightarrow> Inl e
                | Inr failures \<Rightarrow>
                    if failures \<noteq> []
                    then Inr (''Schema verification failed:\<newline>''
                                # map (\<lambda>failure. ''- '' @ failure) failures, 1)
                    else Inr ([''OK: '' @ str_nat (length sources)
                                 @ '' schema(s) verified as Draft 07''], 0)))"
    unfolding result_def paths_def main_def Let_def by (rule refl)
  have zero: "exit_status result = 0 \<longleftrightarrow>
          (\<exists>sources. iter_schema_sources E paths = Inr sources \<and> sources \<noteq> [] \<and>
                     check_sources E allow sources [] = Inr [])"
    unfolding result_eq exit_status_def by (auto split: sum.splits)
  have binary: "exit_status result = 0 \<or> exit_status result = 1"
    unfolding result_eq exit_status_def by (auto split: sum.splits)
  have none: "iter_schema_sources E paths = Inr [] \<longrightarrow>
          result = Inr ([''No JSON schemas found.''], 1)"
    unfolding result_eq by simp
  have summary: "splitlines (''OK: '' @ str_nat n @ '' schema(s) verified as Draft 07'') =
                   [''OK: '' @ str_nat n @ '' schema(s) verified as Draft 07'']" for n
  proof -
    have "\<forall>c \<in> set (''OK: '' @ str_nat n @ '' schema(s) verified as Draft 07'').
            \<not> is_linebreak c"
      using str_nat_no_linebreak [of _ n] by (auto simp: is_linebreak_def)
    then show ?thesis
      using splitlines_one_line_iff
              [of "''OK: '' @ str_nat n @ '' schema(s) verified as Draft 07''"]
      by simp
  qed
  have printed: "splitlines (''- '' @ failure) = [''- '' @ failure] \<longleftrightarrow>
                   (\<forall>c \<in> set failure. \<not> is_linebreak c)" for failure
    using splitlines_one_line_iff [of "''- '' @ failure"]
    by (simp add: is_linebreak_def)
  have some: "\<forall>sources failures.
          iter_schema_sources E paths = Inr sources \<and> sources \<noteq> [] \<and>
          check_sources E allow sources [] = Inr failures \<longrightarrow>
          (failures = [] \<longrightarrow>
             result = Inr ([''OK: '' @ str_nat (length sources)
                              @ '' schema(s) verified as Draft 07''], 0) \<and>
             splitlines (''OK: '' @ str_nat (length sources)
                           @ '' schema(s) verified as Draft 07'') =
               [''OK: '' @ str_nat (length sources) @ '' schema(s) verified as Draft 07'']) \<and>
          (failures \<noteq> [] \<longrightarrow>
             result = Inr (''Schema verification failed:\<newline>''
                             # map (\<lambda>failure. ''- '' @ failure) failures, 1)) \<and>
          (\<forall>failure \<in> set failures.
             (\<exists>source \<in> set sources. \<exists>message.
                failure = label source @ '': '' @ message) \<and>
             (splitlines (''- '' @ failure) = [''- '' @ failure] \<longleftrightarrow>
                (\<forall>c \<in> set failure. \<not> is_linebreak c)))"
  proof (intro allI impI, elim conjE)
    fix sources failures
    assume it: "iter_schema_sources E paths = Inr sources" and ne: "sources \<noteq> []"
      and ch: "check_sources E allow sources [] = Inr failures"
    have labelled: "\<exists>source \<in> set sources. \<exists>message. failure = label source @ '': '' @ message"
      if "failure \<in> set failures" for failure
      using check_sources_labelled [OF ch that] .
    have res: "failures = [] \<longrightarrow>
             result = Inr ([''OK: '' @ str_nat (length sources)
                              @ '' schema(s) verified as Draft 07''], 0)"
      "failures \<noteq> [] \<longrightarrow>
             result = Inr (''Schema verification failed:\<newline>''
                             # map (\<lambda>failure. ''- '' @ failure) failures, 1)"
      unfolding result_eq using it ne ch by simp_all
    show "(failures = [] \<longrightarrow>
             result = Inr ([''OK: '' @ str_nat (length sources)
                              @ '' schema(s) verified as Draft 07''], 0) \<and>
             splitlines (''OK: '' @ str_nat (length sources)
                           @ '' schema(s) verified as Draft 07'') =
               [''OK: '' @ str_nat (length sources) @ '' schema(s) verified as Draft 07'']) \<and>
          (failures \<noteq> [] \<longrightarrow>
             result = Inr (''Schema verification failed:\<newline>''
                             # map (\<lambda>failure. ''- '' @ failure) failures, 1)) \<and>
          (\<forall>failure \<in> set failures.
             (\<exists>source \<in> set sources. \<exists>message.
                failure = label source @ '': '' @ message) \<and>
             (splitlines (''- '' @ failure) = [''- '' @ failure] \<longleftrightarrow>
                (\<forall>c \<in> set failure. \<not> is_linebreak c)))"
      using res labelled printed summary by blast
  qed
  show ?thesis
    unfolding Let_def paths_def [symmetric] result_def [symmetric]
    using zero binary none some by blast
qed

theorem main_exit_status_witness:
  "exit_status (main sample_env [''/work/schemas/good.json''] False) = 0 \<and>
   main sample_env [''/work/schemas/good.json''] False
     = Inr ([''OK: 1 schema(s) verified as Draft 07''], 0) \<and>
   splitlines ''OK: 1 schema(s) verified as Draft 07''
     = [''OK: 1 schema(s) verified as Draft 07''] \<and>
   main sample_env [''/work/docs/schemas.md''] False
     = Inr ([''Schema verification failed:\<newline>'',
             ''- /work/docs/schemas.md:3 (block 1): $schema must be Draft 07 (got None)'',
             ''- /work/docs/schemas.md:6 (block 2): schema must be a JSON object'',
             ''- /work/docs/schemas.md:6 (block 2): invalid JSON (Expecting property name enclosed in double quotes)''], 1)"
proof -
  have good: "good_sources \<noteq> []" "length good_sources = 1"
    by (simp_all add: good_sources_def)
  have one: "str_nat (Suc 0) = ''1''"
    by (simp add: str_nat.simps char_of_eq_iff)
  have ok: "main sample_env [''/work/schemas/good.json''] False
     = Inr ([''OK: 1 schema(s) verified as Draft 07''], 0) \<and>
     splitlines ''OK: 1 schema(s) verified as Draft 07''
     = [''OK: 1 schema(s) verified as Draft 07''] \<and>
     exit_status (main sample_env [''/work/schemas/good.json''] False) = 0"
    using main_exit_status [of "[''/work/schemas/good.json'']" sample_env False] good
    by (simp add: Let_def sample_json_sources sample_json_failures one exit_status_def)
  have ne: "sample_failures \<noteq> []" "sample_sources \<noteq> []"
    by (simp_all add: sample_failures_def sample_sources_def)
  have failed: "main sample_env [''/work/docs/schemas.md''] False
     = Inr (''Schema verification failed:\<newline>'' # map (\<lambda>failure. ''- '' @ failure) sample_failures, 1)"
    using main_exit_status [of "[''/work/docs/schemas.md'']" sample_env False] ne
    by (simp add: Let_def sample_markdown_sources sample_markdown_failures)
  show ?thesis
    using ok failed by (simp add: sample_failures_def exit_status_def)
qed

text \<open>
  Claim C7 as it was stated has every failure printed as one line. On the file
  \<open>/work/schemas/title.json\<close> the structural check returns one failure, made of the
  label and the text of the exception of \<open>check_schema\<close>; the run prints it by one
  call of \<open>print\<close>, and what is printed is seven lines.
\<close>

theorem main_prints_failure_on_several_lines:
  "main title_env [''/work/schemas/title.json''] True
     = Inr ([''Schema verification failed:\<newline>'',
             ''- /work/schemas/title.json: '' @ title_message], 1) \<and>
   splitlines (''- /work/schemas/title.json: '' @ title_message)
     = [''- /work/schemas/title.json: 1 is not of type 'string'' @ [CHR 0x27],
        [],
        ''Failed validating 'type' in metaschema['properties']['title']:'',
        ''    {'type': 'string'}'',
        [],
        ''On schema['title']:'',
        ''    1'']"
  by (simp add: main_def iter_schema_sources_def sources_of_path_def parse_json_file_def
        title_env_def title_text_def title_schema_def title_message_def
        sample_defs validator_defs lower_def lower_char_def
        splitlines_def is_linebreak_def)

section \<open>The scanner of fenced blocks\<close>

text \<open>
  Claim C3. The extractor scans the lines from line 1, outside a block. Outside a
  block, a line whose stripped, lower-cased text does not start with the json fence is
  passed over. A line that does opens a block: when the lines after it up to the first
  line whose stripped text starts with three backticks are \<open>body\<close>, the block
  recorded is the line number after the opening line with \<open>body\<close> joined by
  newlines, and the scan goes on outside a block after the closing line. When no such
  closing line follows before the end of the file, the opening gives no block.
\<close>

theorem markdown_block_scanner:
  "extract_blocks lines = scan_lines 1 lines False 0 [] [] \<and>
   scan_lines idx [] False 0 [] [] = [] \<and>
   (\<not> startswith (lower (strip line)) ''```json'' \<longrightarrow>
      scan_lines idx (line # rest) False 0 [] [] = scan_lines (idx + 1) rest False 0 [] []) \<and>
   (startswith (lower (strip line)) ''```json'' \<and>
    (\<forall>b \<in> set body. \<not> startswith (strip b) ''```'') \<longrightarrow>
      (startswith (strip closing) ''```'' \<longrightarrow>
         scan_lines idx (line # body @ closing # rest) False 0 [] [] =
           (idx + 1, join ''\<newline>'' body) # scan_lines (idx + length body + 2) rest False 0 [] []) \<and>
      scan_lines idx (line # body) False 0 [] [] = [])"
proof (intro conjI impI)
  show "extract_blocks lines = scan_lines 1 lines False 0 [] []"
    by (simp add: extract_blocks_def)
next
  show "scan_lines idx [] False 0 [] [] = []" by simp
next
  assume "\<not> startswith (lower (strip line)) ''```json''"
  then show "scan_lines idx (line # rest) False 0 [] [] = scan_lines (idx + 1) rest False 0 [] []"
    by (simp add: Let_def)
next
  assume a: "startswith (lower (strip line)) ''```json'' \<and>
             (\<forall>b \<in> set body. \<not> startswith (strip b) ''```'')"
  assume c: "startswith (strip closing) ''```''"
  from a have opened: "scan_lines idx (line # body @ closing # rest) False 0 [] [] =
      scan_lines (idx + 1) (body @ closing # rest) True (idx + 1) [] []"
    by (simp add: Let_def)
  also from a have "\<dots> = scan_lines (idx + 1 + length body) (closing # rest) True (idx + 1) body []"
    using scan_lines_body [of body "idx + 1" "closing # rest" "idx + 1" "[]" "[]"] by simp
  also from c have "\<dots> = scan_lines (idx + 1 + length body + 1) rest False (idx + 1) []
                             [(idx + 1, join ''\<newline>'' body)]"
    by (simp add: Let_def)
  also have "\<dots> = [(idx + 1, join ''\<newline>'' body)]
                     @ scan_lines (idx + 1 + length body + 1) rest False (idx + 1) [] []"
    by (rule scan_lines_blocks)
  also have "\<dots> = (idx + 1, join ''\<newline>'' body)
                     # scan_lines (idx + length body + 2) rest False 0 [] []"
    using scan_lines_outside [of "idx + 1 + length body + 1" rest "idx + 1" "[]" "[]"]
    by (simp add: add.commute add.left_commute)
  finally show "scan_lines idx (line # body @ closing # rest) False 0 [] [] =
           (idx + 1, join ''\<newline>'' body) # scan_lines (idx + length body + 2) rest False 0 [] []" .
next
  assume a: "startswith (lower (strip line)) ''```json'' \<and>
             (\<forall>b \<in> set body. \<not> startswith (strip b) ''```'')"
  from a have "scan_lines idx (line # body) False 0 [] [] =
      scan_lines (idx + 1) (body @ []) True (idx + 1) [] []"
    by (simp add: Let_def)
  also from a have "\<dots> = scan_lines (idx + 1 + length body) [] True (idx + 1) ([] @ body) []"
    by (intro scan_lines_body) simp
  finally show "scan_lines idx (line # body) False 0 [] [] = []" by simp
qed

theorem markdown_block_scanner_witness:
  "startswith (lower (strip '' ```JSON'')) ''```json'' \<and>
   \<not> startswith (strip ''{}'') ''```'' \<and>
   \<not> startswith (strip '' x'') ''```'' \<and>
   startswith (strip ''``` end'') ''```'' \<and>
   extract_blocks [''text'', '' ```JSON'', ''{}'', '' x'', ''``` end'', ''```json'', ''{'']
     = [(3, ''{}\<newline> x'')]"
proof -
  note evals = startswith_def lower_def lower_char_def strip_def isspace_def char_of_eq_iff
  have plain: "\<not> startswith (lower (strip ''text'')) ''```json''"
    by (simp add: evals)
  have opened: "startswith (lower (strip '' ```JSON'')) ''```json'' \<and>
                 (\<forall>b \<in> set [''{}'', '' x'']. \<not> startswith (strip b) ''```'')"
    by (simp add: evals)
  have closed: "startswith (strip ''``` end'') ''```''"
    by (simp add: evals)
  have dangling: "startswith (lower (strip ''```json'')) ''```json'' \<and>
                  (\<forall>b \<in> set [''{'']. \<not> startswith (strip b) ''```'')"
    by (simp add: evals)
  have s1: "extract_blocks [''text'', '' ```JSON'', ''{}'', '' x'', ''``` end'', ''```json'', ''{'']
            = scan_lines 1 [''text'', '' ```JSON'', ''{}'', '' x'', ''``` end'', ''```json'', ''{'']
                False 0 [] []"
    using markdown_block_scanner by blast
  have s2: "scan_lines 1 [''text'', '' ```JSON'', ''{}'', '' x'', ''``` end'', ''```json'', ''{'']
                False 0 [] []
            = scan_lines 2 ['' ```JSON'', ''{}'', '' x'', ''``` end'', ''```json'', ''{'']
                False 0 [] []"
    using markdown_block_scanner [where line = "''text''" and idx = 1] plain
    by (simp del: scan_lines.simps add: eval_nat_numeral)
  have s3: "scan_lines 2 ['' ```JSON'', ''{}'', '' x'', ''``` end'', ''```json'', ''{'']
                False 0 [] []
            = (3, ''{}\<newline> x'') # scan_lines 6 [''```json'', ''{''] False 0 [] []"
    using markdown_block_scanner [where line = "'' ```JSON''" and body = "[''{}'', '' x'']"
            and closing = "''``` end''" and rest = "[''```json'', ''{'']" and idx = 2]
          opened closed
    by (simp del: scan_lines.simps add: eval_nat_numeral)
  have s4: "scan_lines 6 [''```json'', ''{''] False 0 [] [] = []"
    using markdown_block_scanner [where line = "''```json''" and body = "[''{'']" and idx = 6]
          dangling
    by (simp del: scan_lines.simps add: eval_nat_numeral)
  have "extract_blocks [''text'', '' ```JSON'', ''{}'', '' x'', ''``` end'', ''```json'', ''{'']
          = [(3, ''{}\<newline> x'')]"
    by (simp only: s1 s2 s3 s4)
  with opened closed show ?thesis by simp
qed

section \<open>Blocks of white space\<close>

text \<open>
  Claim C8. A block whose text is empty after stripping gives no source and no
  exception: the sources of a list of blocks that holds it are the sources of the blocks
  before it followed by the sources of the blocks after it, each under the block index
  it has in the whole list. The number of sources is the number of blocks that are not
  white space only.
\<close>

theorem whitespace_block_dropped:
  "(strip block_text = [] \<longrightarrow>
      blocks_to_sources E pth root k (before @ (start_line, block_text) # after) =
        (case blocks_to_sources E pth root k before of
           Inl e \<Rightarrow> Inl e
         | Inr a \<Rightarrow>
             (case blocks_to_sources E pth root (k + length before + 1) after of
                Inl e \<Rightarrow> Inl e
              | Inr b \<Rightarrow> Inr (a @ b)))) \<and>
   (blocks_to_sources E pth root k blocks = Inr sources \<longrightarrow>
      length sources =
        length (filter (\<lambda>(start_line, block_text). strip block_text \<noteq> []) blocks))"
proof (intro conjI impI)
  assume blank: "strip block_text = []"
  have step: "blocks_to_sources E pth root (k + length before) ((start_line, block_text) # after) =
          blocks_to_sources E pth root (k + length before + 1) after"
    using blank by simp
  show "blocks_to_sources E pth root k (before @ (start_line, block_text) # after) =
        (case blocks_to_sources E pth root k before of
           Inl e \<Rightarrow> Inl e
         | Inr a \<Rightarrow>
             (case blocks_to_sources E pth root (k + length before + 1) after of
                Inl e \<Rightarrow> Inl e
              | Inr b \<Rightarrow> Inr (a @ b)))"
    by (simp only: blocks_to_sources_append step)
next
  assume "blocks_to_sources E pth root k blocks = Inr sources"
  then show "length sources =
        length (filter (\<lambda>(start_line, block_text). strip block_text \<noteq> []) blocks)"
    by (rule blocks_to_sources_length)
qed

theorem whitespace_block_dropped_witness:
  "strip [CHR 0x20, CHR 0x09, CHR 0x20] = [] \<and>
   blocks_to_sources sample_env ''/work/docs/schemas.md'' ''/repo'' 1
     [(3, ''{}''), (6, [CHR 0x20, CHR 0x09, CHR 0x20]), (9, ''{}'')] =
     Inr [\<lparr>path = ''/work/docs/schemas.md'', label = ''/work/docs/schemas.md:3 (block 1)'',
           schema = Parsed (JObject [])\<rparr>,
          \<lparr>path = ''/work/docs/schemas.md'', label = ''/work/docs/schemas.md:9 (block 3)'',
           schema = Parsed (JObject [])\<rparr>]"
proof -
  note evals = sample_defs parse_json_block_def block_label_def snippet_directive_match_def
    startswith_def strip_def isspace_def str_nat.simps char_of_eq_iff Let_def
  have blank: "strip [CHR 0x20, CHR 0x09, CHR 0x20] = []"
    by (simp add: strip_def isspace_def)
  have earlier: "blocks_to_sources sample_env ''/work/docs/schemas.md'' ''/repo'' 1 [(3, ''{}'')] =
     Inr [\<lparr>path = ''/work/docs/schemas.md'', label = ''/work/docs/schemas.md:3 (block 1)'',
           schema = Parsed (JObject [])\<rparr>]"
    by (simp add: evals)
  have later: "blocks_to_sources sample_env ''/work/docs/schemas.md'' ''/repo'' 3 [(9, ''{}'')] =
     Inr [\<lparr>path = ''/work/docs/schemas.md'', label = ''/work/docs/schemas.md:9 (block 3)'',
           schema = Parsed (JObject [])\<rparr>]"
    by (simp add: evals)
  have "blocks_to_sources sample_env ''/work/docs/schemas.md'' ''/repo'' 1
     ([(3, ''{}'')] @ (6, [CHR 0x20, CHR 0x09, CHR 0x20]) # [(9, ''{}'')]) =
     Inr [\<lparr>path = ''/work/docs/schemas.md'', label = ''/work/docs/schemas.md:3 (block 1)'',
           schema = Parsed (JObject [])\<rparr>,
          \<lparr>path = ''/work/docs/schemas.md'', label = ''/work/docs/schemas.md:9 (block 3)'',
           schema = Parsed (JObject [])\<rparr>]"
    using whitespace_block_dropped [where E = sample_env and pth = "''/work/docs/schemas.md''"
            and root = "''/repo''" and k = 1 and before = "[(3, ''{}'')]"
            and block_text = "[CHR 0x20, CHR 0x09, CHR 0x20]" and start_line = 6
            and after = "[(9, ''{}'')]"]
          blank earlier later
    by (simp del: blocks_to_sources.simps add: eval_nat_numeral)
  with blank show ?thesis by simp
qed

section \<open>Resolution of a snippet include\<close>



section \<open>A malformed JSON file\<close>

text \<open>
  Claim C1. A parse error in a standalone JSON file is to be kept in the source and
  reported as a failure, without stopping the scan. In \<open>parse_json_file\<close> the
  \<open>JSONDecodeError\<close> is not caught: on the sample tree, the run over the malformed
  file and the well-formed file ends with the exception and reports nothing, while the
  run over the well-formed file alone succeeds.
\<close>

theorem malformed_json_file_aborts_scan:
  "main sample_env [''/work/schemas/bad.json'', ''/work/schemas/good.json''] False
     = Inl (JSONDecodeErr bad_error) \<and>
   main sample_env [''/work/schemas/good.json''] False
     = Inr ([''OK: 1 schema(s) verified as Draft 07''], 0)"
  by (simp add: main_def iter_schema_sources_def sources_of_path_def parse_json_file_def
        sample_defs validator_defs lower_def lower_char_def str_nat.simps char_of_eq_iff)

end
